theory Spec2Isabelle
  imports Main "HOL-Library.Sublist"
begin

section \<open>Python values, exceptions and strings\<close>

text \<open>
  The repository is Python. A \<open>str\<close> is modelled as a \<open>string\<close> holding its UTF-8
  bytes, so that every SQL keyword, denylist name and message of the source is the same
  literal here; the two localized phrases of the source are written as their bytes.
  Substring tests on UTF-8 bytes agree with substring tests on code points. Case
  folding (\<open>py_lower\<close>), whitespace (\<open>is_space\<close>) and the word characters of the regular
  expressions (\<open>is_word\<close>) are given for ASCII and are exact for ASCII text only: Python
  also folds, strips and matches characters outside ASCII. A property stated below for
  every text either does not depend on these operations, or supposes the text ASCII,
  or takes \<open>str.lower\<close> as a parameter.

  An exception is a value: a call that may raise returns \<open>py_exn + 'a\<close>, with \<open>Inl\<close>
  the raised exception. Only exceptions below \<open>Exception\<close> are modelled, the ones an
  \<open>except Exception\<close> clause catches.
\<close>

datatype py_exn = PyException string

datatype pyval =
    PyNone
  | PyBool bool
  | PyStr string
  | PyDatetime nat
  | PyRecords "(string \<times> string) list list"

type_synonym pydict = "string \<rightharpoonup> pyval"

fun truthy :: "pyval \<Rightarrow> bool" where
  "truthy PyNone = False"
| "truthy (PyBool b) = b"
| "truthy (PyStr s) = (s \<noteq> [])"
| "truthy (PyDatetime t) = True"
| "truthy (PyRecords rows) = (rows \<noteq> [])"

fun isinstance_str :: "pyval \<Rightarrow> bool" where
  "isinstance_str (PyStr s) = True"
| "isinstance_str v = False"

text \<open>\<open>try: body except Exception as e: handler(e)\<close>\<close>

definition py_try :: "py_exn + 'a \<Rightarrow> (py_exn \<Rightarrow> py_exn + 'a) \<Rightarrow> py_exn + 'a" where
  "py_try body handler = (case body of Inl e \<Rightarrow> handler e | Inr v \<Rightarrow> Inr v)"

subsection \<open>String operations\<close>

definition lower_char :: "char \<Rightarrow> char" where
  "lower_char c =
     (case map_of (zip ''ABCDEFGHIJKLMNOPQRSTUVWXYZ'' ''abcdefghijklmnopqrstuvwxyz'') c of
        Some d \<Rightarrow> d
      | None \<Rightarrow> c)"

definition py_lower :: "string \<Rightarrow> string" where
  "py_lower s = map lower_char s"

definition is_space :: "char \<Rightarrow> bool" where
  "is_space c = (c \<in> set [CHR 0x09, CHR 0x0A, CHR 0x0B, CHR 0x0C, CHR 0x0D,
                           CHR 0x1C, CHR 0x1D, CHR 0x1E, CHR 0x1F, CHR 0x20])"

definition is_word :: "char \<Rightarrow> bool" where
  "is_word c = (c \<in> set (''abcdefghijklmnopqrstuvwxyz'' @ ''ABCDEFGHIJKLMNOPQRSTUVWXYZ''
                            @ ''0123456789_''))"

definition py_strip :: "string \<Rightarrow> string" where
  "py_strip s = rev (dropWhile is_space (rev (dropWhile is_space s)))"

text \<open>\<open>sub in s\<close>\<close>

fun py_in :: "string \<Rightarrow> string \<Rightarrow> bool" where
  "py_in sub [] = (sub = [])"
| "py_in sub (c # cs) = (prefix sub (c # cs) \<or> py_in sub cs)"

text \<open>\<open>s.find(sub, start)\<close>; \<open>None\<close> stands for the result \<open>-1\<close>.\<close>

function py_find :: "string \<Rightarrow> string \<Rightarrow> nat \<Rightarrow> nat option" where
  "py_find sub s start =
     (if length s < start then None
      else if prefix sub (drop start s) then Some start
      else py_find sub s (Suc start))"
  by pat_completeness auto
termination
  by (relation "measure (\<lambda>(sub, s, start). Suc (length s) - start)") auto

text \<open>\<open>s[a:b]\<close> for indices that are not negative.\<close>

definition py_slice :: "string \<Rightarrow> nat \<Rightarrow> nat \<Rightarrow> string" where
  "py_slice s a b = take (b - a) (drop a s)"

text \<open>\<open>s.split(sep)\<close> for a separator that is not empty.\<close>

function split_from :: "string \<Rightarrow> string \<Rightarrow> string \<Rightarrow> string list" where
  "split_from sep acc s =
     (if sep \<noteq> [] \<and> prefix sep s then rev acc # split_from sep [] (drop (length sep) s)
      else if s = [] then [rev acc]
      else split_from sep (hd s # acc) (tl s))"
  by pat_completeness auto
termination
  by (relation "measure (\<lambda>(sep, acc, s). length s)") (auto simp: prefix_def)

definition py_split :: "string \<Rightarrow> string \<Rightarrow> string list" where
  "py_split sep s = split_from sep [] s"

text \<open>\<open>s.split()\<close>: the maximal runs of characters that are not whitespace.\<close>

fun words_from :: "string \<Rightarrow> string \<Rightarrow> string list" where
  "words_from acc [] = (if acc = [] then [] else [rev acc])"
| "words_from acc (c # cs) =
     (if is_space c then (if acc = [] then words_from [] cs else rev acc # words_from [] cs)
      else words_from (c # acc) cs)"

definition py_words :: "string \<Rightarrow> string list" where
  "py_words s = words_from [] s"

section \<open>SQLValidator\<close>

text \<open>
  The validator holds a schema manager and the set \<open>_invalid_patterns\<close>. Of the schema
  manager it uses one call, \<open>get_all_column_names()\<close>, whose outcome (the column names,
  or the exception it raised) is the field \<open>all_column_names\<close>. A Python \<open>set\<close> of
  strings is iterated in an order that is fixed within a run and unspecified otherwise;
  the fields \<open>invalid_order\<close> and \<open>strict_order\<close> are the orders in which the two
  pattern sets are iterated, and \<open>all_column_names\<close> lists the columns in the order the
  set of column names is iterated.
\<close>

record validator =
  all_column_names :: "py_exn + string list"
  invalid_order :: "string list"
  strict_order :: "string list"

definition invalid_patterns :: "string list" where
  "invalid_patterns =
     [''conversion_rate'', ''revenue'', ''clicks'', ''impressions'', ''created_by'',
      ''user_id'', ''tags'', ''priority'', ''budget'', ''success_rate'',
      ''participant_count'']"

definition strict_invalid_patterns :: "string list" where
  "strict_invalid_patterns =
     [''clicks'', ''impressions'', ''ctr'', ''roas'', ''created_by'', ''user_id'',
      ''tags'', ''priority'', ''budget'', ''participant_count'']"

definition iterates :: "validator \<Rightarrow> bool" where
  "iterates v = (set (invalid_order v) = set invalid_patterns
                 \<and> set (strict_order v) = set strict_invalid_patterns)"

definition is_basic_sql_valid :: "pyval \<Rightarrow> bool" where
  "is_basic_sql_valid sql =
     (case sql of
        PyStr s \<Rightarrow>
          if s = [] then False
          else (let sql_lower = py_strip (py_lower s)
                in list_ex (\<lambda>keyword. py_in keyword sql_lower)
                     [''select'', ''insert'', ''update'', ''delete''])
      | _ \<Rightarrow> False)"

definition error_indicators :: "string list" where
  "error_indicators =
     [[CHR 0xE7, CHR 0x84, CHR 0xA1, CHR 0xE6, CHR 0xB3, CHR 0x95, CHR 0xE6, CHR 0xA0,
       CHR 0xB9, CHR 0xE6, CHR 0x93, CHR 0x9A, CHR 0xE7, CHR 0x8F, CHR 0xBE, CHR 0xE6,
       CHR 0x9C, CHR 0x89, CHR 0xE8, CHR 0xB3, CHR 0x87, CHR 0xE6, CHR 0x96, CHR 0x99,
       CHR 0xE5, CHR 0xBA, CHR 0xAB, CHR 0xE7, CHR 0xB5, CHR 0x90, CHR 0xE6, CHR 0xA7,
       CHR 0x8B, CHR 0xE7, CHR 0x94, CHR 0x9F, CHR 0xE6, CHR 0x88, CHR 0x90, CHR 0xE6,
       CHR 0xAD, CHR 0xA4, CHR 0xE6, CHR 0x9F, CHR 0xA5, CHR 0xE8, CHR 0xA9, CHR 0xA2],
      ''sorry'', ''error'', ''unable'', ''cannot'',
      [CHR 0xE7, CHR 0x84, CHR 0xA1, CHR 0xE6, CHR 0xB3, CHR 0x95],
      [CHR 0xE5, CHR 0xA4, CHR 0xB1, CHR 0xE6, CHR 0x95, CHR 0x97]]"

definition contains_error_message :: "string \<Rightarrow> bool" where
  "contains_error_message sql =
     (let sql_lower = py_strip (py_lower sql)
      in list_ex (\<lambda>indicator. py_in indicator sql_lower) error_indicators)"

definition column_error :: "string \<Rightarrow> string" where
  "column_error pattern =
     ''Column '' @ [CHR 0x27] @ pattern @ [CHR 0x27] @ '' does not exist in schema''"

subsection \<open>The strict rule\<close>

definition alias_of_part :: "string \<Rightarrow> string option" where
  "alias_of_part p =
     (let part = py_strip p in
      if py_in '' as '' part then Some (py_strip (last (py_split '' as '' part)))
      else if py_in '' '' part
              \<and> \<not> list_ex (\<lambda>func. py_in func part)
                    [''count'', ''sum'', ''avg'', ''round'', ''nullif'']
      then (let words = py_words part
            in if 2 \<le> length words then Some (last words) else None)
      else None)"

definition extract_select_aliases :: "string \<Rightarrow> string list" where
  "extract_select_aliases sql =
     (let sql_lower = py_lower sql in
      case py_find ''select'' sql_lower 0 of
        None \<Rightarrow> []
      | Some select_start \<Rightarrow>
          (case py_find ''from'' sql_lower 0 of
             None \<Rightarrow> []
           | Some from_start \<Rightarrow>
               (let select_clause = py_strip (py_slice sql_lower (select_start + 6) from_start);
                    parts = py_split '','' select_clause
                in List.map_filter alias_of_part parts)))"

lemma py_find_bounds:
  "py_find sub s start = Some pos \<Longrightarrow> start \<le> pos \<and> pos \<le> length s"
proof (induction sub s start rule: py_find.induct)
  case (1 sub s start)
  show ?case
  proof (cases "length s < start")
    case True
    with "1.prems" show ?thesis by simp
  next
    case False
    note inside = this
    show ?thesis
    proof (cases "prefix sub (drop start s)")
      case True
      with inside "1.prems" show ?thesis by simp
    next
      case False
      with inside "1.prems" have "py_find sub s (Suc start) = Some pos" by simp
      with "1.IH" [OF inside False] show ?thesis by simp
    qed
  qed
qed

text \<open>The loop collecting every position at which the pattern occurs.\<close>

function pattern_positions :: "string \<Rightarrow> string \<Rightarrow> nat \<Rightarrow> nat list" where
  "pattern_positions sql_lower pattern start =
     (case py_find pattern sql_lower start of
        None \<Rightarrow> []
      | Some pos \<Rightarrow> pos # pattern_positions sql_lower pattern (Suc pos))"
  by pat_completeness auto
termination
proof (relation "measure (\<lambda>(sql_lower, pattern, start). Suc (length sql_lower) - start)")
  show "wf (measure (\<lambda>(sql_lower, pattern, start). Suc (length sql_lower) - start))"
    by simp
next
  fix sql_lower pattern :: string and start pos :: nat
  assume "py_find pattern sql_lower start = Some pos"
  then have "start \<le> pos \<and> pos \<le> length sql_lower" by (rule py_find_bounds)
  then show "((sql_lower, pattern, Suc pos), (sql_lower, pattern, start))
             \<in> measure (\<lambda>(sql_lower, pattern, start). Suc (length sql_lower) - start)"
    by (simp; linarith)
qed

definition in_order_by :: "string \<Rightarrow> nat \<Rightarrow> bool" where
  "in_order_by sql_lower pos =
     (case py_find ''order by'' sql_lower 0 of
        None \<Rightarrow> False
      | Some order_by_pos \<Rightarrow> order_by_pos < pos)"

definition in_select_clause :: "string \<Rightarrow> nat \<Rightarrow> bool" where
  "in_select_clause sql_lower pos =
     (case py_find ''select'' sql_lower 0 of
        None \<Rightarrow> False
      | Some select_pos \<Rightarrow>
          (case py_find ''from'' sql_lower 0 of
             None \<Rightarrow> False
           | Some from_pos \<Rightarrow> select_pos < pos \<and> pos < from_pos))"

fun scan_positions :: "string \<Rightarrow> nat list \<Rightarrow> bool" where
  "scan_positions sql_lower [] = False"
| "scan_positions sql_lower (pos # rest) =
     (if in_order_by sql_lower pos then scan_positions sql_lower rest
      else if in_select_clause sql_lower pos then scan_positions sql_lower rest
      else True)"

definition is_invalid_column_usage :: "string \<Rightarrow> string \<Rightarrow> string list \<Rightarrow> bool" where
  "is_invalid_column_usage sql_lower pattern select_aliases =
     (if pattern \<in> set select_aliases then False
      else scan_positions sql_lower (pattern_positions sql_lower pattern 0))"

fun check_patterns :: "string \<Rightarrow> string list \<Rightarrow> string list \<Rightarrow> string list \<Rightarrow> string option" where
  "check_patterns sql_lower all_columns_lower select_aliases [] = None"
| "check_patterns sql_lower all_columns_lower select_aliases (pattern # rest) =
     (if py_in pattern sql_lower \<and> pattern \<notin> set all_columns_lower
         \<and> pattern \<notin> set select_aliases
         \<and> is_invalid_column_usage sql_lower pattern select_aliases
      then Some (column_error pattern)
      else check_patterns sql_lower all_columns_lower select_aliases rest)"

subsection \<open>The lenient rule for queries with a common table expression\<close>

text \<open>
  The five patterns given to \<open>re.search\<close> use literals, the classes \<open>\w\<close>, \<open>\s\<close> and
  \<open>[=<>]\<close>, the repetitions \<open>+\<close> and \<open>*\<close> of a class, and the word boundary \<open>\b\<close>. A
  pattern is the list of its items; \<open>re_match\<close> says whether some way of matching the
  items starts at the head of the text (the character before it is \<open>prev\<close>), which is
  when a backtracking matcher succeeds there, and \<open>re_search\<close> tries every start.
\<close>

datatype cls = Word | Space | Cmp

datatype item = Lit char | One cls | Plus cls | Star cls | Boundary

fun in_cls :: "cls \<Rightarrow> char \<Rightarrow> bool" where
  "in_cls Word c = is_word c"
| "in_cls Space c = is_space c"
| "in_cls Cmp c = (c \<in> set ''=<>'')"

fun word_at :: "char option \<Rightarrow> bool" where
  "word_at None = False"
| "word_at (Some c) = is_word c"

fun re_match :: "item list \<Rightarrow> char option \<Rightarrow> string \<Rightarrow> bool" where
  "re_match [] prev s = True"
| "re_match (Lit c # r) prev [] = False"
| "re_match (Lit c # r) prev (x # xs) = (x = c \<and> re_match r (Some x) xs)"
| "re_match (One k # r) prev [] = False"
| "re_match (One k # r) prev (x # xs) = (in_cls k x \<and> re_match r (Some x) xs)"
| "re_match (Plus k # r) prev [] = False"
| "re_match (Plus k # r) prev (x # xs) = (in_cls k x \<and> re_match (Star k # r) (Some x) xs)"
| "re_match (Star k # r) prev [] = re_match r prev []"
| "re_match (Star k # r) prev (x # xs) =
     ((in_cls k x \<and> re_match (Star k # r) (Some x) xs) \<or> re_match r prev (x # xs))"
| "re_match (Boundary # r) prev [] = (word_at prev \<and> re_match r prev [])"
| "re_match (Boundary # r) prev (x # xs) =
     (word_at prev \<noteq> is_word x \<and> re_match r prev (x # xs))"

fun re_search_from :: "item list \<Rightarrow> char option \<Rightarrow> string \<Rightarrow> bool" where
  "re_search_from r prev [] = re_match r prev []"
| "re_search_from r prev (x # xs) = (re_match r prev (x # xs) \<or> re_search_from r (Some x) xs)"

definition re_search :: "item list \<Rightarrow> string \<Rightarrow> bool" where
  "re_search r s = re_search_from r None s"

definition column_ref_patterns :: "string \<Rightarrow> item list list" where
  "column_ref_patterns pattern =
     [[Plus Word, Lit (CHR ''.'')] @ map Lit pattern @ [Boundary],
      map Lit ''where'' @ [Plus Space] @ map Lit pattern @ [Star Space, One Cmp],
      map Lit ''and'' @ [Plus Space] @ map Lit pattern @ [Star Space, One Cmp],
      map Lit ''or'' @ [Plus Space] @ map Lit pattern @ [Star Space, One Cmp],
      map Lit ''on'' @ [Plus Space, Plus Word, Lit (CHR ''.'')] @ map Lit pattern
        @ [Star Space, Lit (CHR ''='')]]"

definition is_likely_column_reference :: "string \<Rightarrow> string \<Rightarrow> bool" where
  "is_likely_column_reference sql_lower pattern =
     list_ex (\<lambda>regex_pattern. re_search regex_pattern sql_lower) (column_ref_patterns pattern)"

fun check_strict_patterns :: "string \<Rightarrow> string list \<Rightarrow> string list \<Rightarrow> string option" where
  "check_strict_patterns sql_lower all_columns_lower [] = None"
| "check_strict_patterns sql_lower all_columns_lower (pattern # rest) =
     (if py_in pattern sql_lower \<and> pattern \<notin> set all_columns_lower
         \<and> is_likely_column_reference sql_lower pattern
      then Some (column_error pattern)
      else check_strict_patterns sql_lower all_columns_lower rest)"

definition validate_cte_query :: "validator \<Rightarrow> string \<Rightarrow> py_exn + string option" where
  "validate_cte_query v sql_lower =
     (case all_column_names v of
        Inl e \<Rightarrow> Inl e
      | Inr all_columns \<Rightarrow>
          Inr (check_strict_patterns sql_lower (map py_lower all_columns) (strict_order v)))"

subsection \<open>The column check and the validator\<close>

definition is_cte :: "string \<Rightarrow> bool" where
  "is_cte sql_lower = (py_in ''with '' sql_lower \<and> py_in ''as ('' sql_lower)"

definition check_column_validity :: "validator \<Rightarrow> string \<Rightarrow> py_exn + string option" where
  "check_column_validity v sql =
     (let sql_lower = py_lower sql in
      if is_cte sql_lower then validate_cte_query v sql_lower
      else (case all_column_names v of
              Inl e \<Rightarrow> Inl e
            | Inr all_columns \<Rightarrow>
                Inr (check_patterns sql_lower (map py_lower all_columns)
                       (extract_select_aliases sql) (invalid_order v))))"

text \<open>
  The body of the \<open>try\<close> block of \<open>validate_sql\<close>. A value that is not a \<open>str\<close> never
  passes the first test; the last case is what \<open>sql.lower()\<close> would do on one.
\<close>

definition validate_sql_body :: "validator \<Rightarrow> pyval \<Rightarrow> pyval \<Rightarrow> py_exn + (bool \<times> string option)" where
  "validate_sql_body v sql question =
     (if \<not> is_basic_sql_valid sql then Inr (False, Some ''Invalid SQL structure'')
      else (case sql of
              PyStr s \<Rightarrow>
                if contains_error_message s
                then Inr (False, Some ''AI returned error message instead of SQL'')
                else (case check_column_validity v s of
                        Inl e \<Rightarrow> Inl e
                      | Inr None \<Rightarrow> Inr (True, None)
                      | Inr (Some validation_error) \<Rightarrow>
                          if validation_error \<noteq> [] then Inr (False, Some validation_error)
                          else Inr (True, None))
            | _ \<Rightarrow> Inl (PyException ''AttributeError'')))"

definition validate_sql :: "validator \<Rightarrow> pyval \<Rightarrow> pyval \<Rightarrow> py_exn + (bool \<times> string option)" where
  "validate_sql v sql question =
     py_try (validate_sql_body v sql question) (\<lambda>e. Inr (True, None))"

text \<open>
  \<open>get_column_suggestions\<close> is called with any name, and the schema may hold any
  names, so \<open>str.lower\<close> is its parameter \<open>lower\<close>; on ASCII text it is \<open>py_lower\<close>.
\<close>

definition get_column_suggestions ::
  "(string \<Rightarrow> string) \<Rightarrow> validator \<Rightarrow> string \<Rightarrow> py_exn + string list" where
  "get_column_suggestions lower v invalid_column =
     (case all_column_names v of
        Inl e \<Rightarrow> Inl e
      | Inr all_columns \<Rightarrow>
          (let invalid_lower = lower invalid_column;
               suggestions = filter (\<lambda>col. py_in invalid_lower (lower col)
                                            \<or> py_in (lower col) invalid_lower) all_columns
           in Inr (take 3 suggestions)))"

section \<open>PostgreSQLConnector and SchemaManager\<close>

text \<open>
  A \<open>DataFrame\<close> is what the code observes of it: \<open>df.empty\<close> and the rows, which
  \<open>df.to_dict('records')\<close> and \<open>df.iterrows()\<close> give as mappings from column name to
  value.
\<close>

record dataframe =
  df_empty :: bool
  df_records :: "(string \<times> string) list list"

text \<open>
  \<open>PostgreSQLConnector.execute_query\<close>. The database driver is a parameter: whether the
  connection is open when the call starts, what \<open>self.connect()\<close> returns (it catches
  every exception itself), what running the statement on a cursor gives (the frame
  built from the rows, or the exception raised, of class \<open>psycopg.Error\<close> or not),
  whether the connection is open when an error is handled, and what \<open>rollback()\<close> does.
  The second argument of \<open>execute_query\<close> is the parameter tuple, here of one name at
  most.
\<close>

datatype db_exn = PsycopgError string | OtherError string

record driver =
  connection_open :: bool
  reconnect :: bool
  run_statement :: "string \<Rightarrow> string option \<Rightarrow> db_exn + dataframe"
  open_after_error :: bool
  rollback :: "db_exn + unit"

definition connector_execute_query ::
  "driver \<Rightarrow> string \<Rightarrow> string option \<Rightarrow> py_exn + dataframe option" where
  "connector_execute_query d query params =
     (if \<not> connection_open d \<and> \<not> reconnect d then Inr None
      else (case run_statement d query params of
              Inr df \<Rightarrow> Inr (Some df)
            | Inl (PsycopgError m) \<Rightarrow>
                if open_after_error d
                then (case rollback d of
                        Inl (OtherError rb) \<Rightarrow> Inl (PyException rb)
                      | Inl (PsycopgError rb) \<Rightarrow> Inr None
                      | Inr u \<Rightarrow> Inr None)
                else Inr None
            | Inl (OtherError m) \<Rightarrow> Inr None))"

text \<open>
  \<open>PostgreSQLConnector.get_schema_info\<close>, over any \<open>execute_query\<close>. It returns the
  schema, the warnings and errors it logged, and the queries it ran, in order.
\<close>

datatype log_record = LogWarning string | LogError string

type_synonym schema_info = "string \<rightharpoonup> (string \<times> string) list list"

definition tables_query :: string where
  "tables_query =
     [CHR 0x0A] @ ''        SELECT table_name '' @ [CHR 0x0A] @
       ''        FROM information_schema.tables '' @ [CHR 0x0A] @
       ''        WHERE table_schema = '' @ [CHR 0x27] @ ''public'' @ [CHR 0x27] @
       '' AND table_type = '' @ [CHR 0x27] @ ''BASE TABLE'' @ [CHR 0x27, CHR 0x0A] @
       ''        ORDER BY table_name;'' @ [CHR 0x0A] @ ''        ''"

definition columns_query :: string where
  "columns_query =
     [CHR 0x0A] @
       ''                SELECT column_name, data_type, udt_name, is_nullable,'' @
       [CHR 0x0A] @
       ''                       column_default, character_maximum_length, numeric_precision, numeric_scale'' @
       [CHR 0x0A] @ ''                FROM information_schema.columns'' @ [CHR 0x0A] @
       ''                WHERE table_schema = '' @ [CHR 0x27] @ ''public'' @ [CHR 0x27] @
       '' AND table_name = %s'' @ [CHR 0x0A] @
       ''                ORDER BY ordinal_position;'' @ [CHR 0x0A] @ ''                ''"

definition no_tables_warning :: log_record where
  "no_tables_warning =
     LogWarning (''No tables found in '' @ [CHR 0x27] @ ''public'' @ [CHR 0x27]
                   @ '' schema or error fetching tables.'')"

definition no_columns_warning :: "string \<Rightarrow> log_record" where
  "no_columns_warning table_name =
     LogWarning (''No columns found for table '' @ [CHR 0x27] @ table_name @ [CHR 0x27]
                   @ '' or error fetching columns.'')"

definition exn_str :: "py_exn \<Rightarrow> string" where
  "exn_str e = (case e of PyException m \<Rightarrow> m)"

definition schema_error :: "py_exn \<Rightarrow> log_record" where
  "schema_error e = LogError (''Error getting schema info: '' @ exn_str e)"

record fetch =
  fetched :: schema_info
  logged :: "log_record list"
  queries :: "(string \<times> string option) list"

text \<open>
  The loop over the rows of the table list. An exception leaves the loop: the row has
  no \<open>table_name\<close>, or \<open>execute_query\<close> raised.
\<close>

fun fetch_columns ::
  "(string \<Rightarrow> string option \<Rightarrow> py_exn + dataframe option)
   \<Rightarrow> (string \<times> string) list list \<Rightarrow> fetch \<Rightarrow> py_exn option \<times> fetch" where
  "fetch_columns execute_query [] f = (None, f)"
| "fetch_columns execute_query (row # rows) f =
     (case map_of row ''table_name'' of
        None \<Rightarrow> (Some (PyException ([CHR 0x27] @ ''table_name'' @ [CHR 0x27])), f)
      | Some table_name \<Rightarrow>
          (let ran = f\<lparr>queries := queries f @ [(columns_query, Some table_name)]\<rparr>
           in case execute_query columns_query (Some table_name) of
                Inl e \<Rightarrow> (Some e, ran)
              | Inr columns_df \<Rightarrow>
                  (case columns_df of
                     Some df \<Rightarrow>
                       if \<not> df_empty df
                       then fetch_columns execute_query rows
                              (ran\<lparr>fetched := (fetched ran)(table_name \<mapsto> df_records df)\<rparr>)
                       else fetch_columns execute_query rows
                              (ran\<lparr>fetched := (fetched ran)(table_name \<mapsto> []),
                                   logged := logged ran @ [no_columns_warning table_name]\<rparr>)
                   | None \<Rightarrow>
                       fetch_columns execute_query rows
                         (ran\<lparr>fetched := (fetched ran)(table_name \<mapsto> []),
                              logged := logged ran @ [no_columns_warning table_name]\<rparr>))))"

definition connector_get_schema_info ::
  "(string \<Rightarrow> string option \<Rightarrow> py_exn + dataframe option) \<Rightarrow> fetch" where
  "connector_get_schema_info execute_query =
     (let start = \<lparr>fetched = Map.empty, logged = [], queries = [(tables_query, None)]\<rparr>
      in case execute_query tables_query None of
           Inl e \<Rightarrow> start\<lparr>logged := [schema_error e]\<rparr>
         | Inr tables_df \<Rightarrow>
             (case tables_df of
                None \<Rightarrow> start\<lparr>logged := [no_tables_warning]\<rparr>
              | Some df \<Rightarrow>
                  if df_empty df then start\<lparr>logged := [no_tables_warning]\<rparr>
                  else (case fetch_columns execute_query (df_records df) start of
                          (Some e, f) \<Rightarrow>
                            f\<lparr>fetched := Map.empty, logged := logged f @ [schema_error e]\<rparr>
                        | (None, f) \<Rightarrow> f)))"

text \<open>
  \<open>SchemaManager.get_schema_info\<close>. The state is the cache, \<open>None\<close> until the first call;
  the result is the new state, the schema returned, and what the call logged and ran.
\<close>

record schema_manager =
  schema_cache :: "schema_info option"

definition get_schema_info ::
  "(string \<Rightarrow> string option \<Rightarrow> py_exn + dataframe option) \<Rightarrow> schema_manager
   \<Rightarrow> schema_manager \<times> fetch" where
  "get_schema_info execute_query sm =
     (case schema_cache sm of
        None \<Rightarrow>
          (let f = connector_get_schema_info execute_query
           in (sm\<lparr>schema_cache := Some (fetched f)\<rparr>, f))
      | Some cached \<Rightarrow> (sm, \<lparr>fetched = cached, logged = [], queries = []\<rparr>))"

section \<open>VannaAgent\<close>

text \<open>
  The agent's collaborators and the two library functions it applies to text of any
  script are the environment of a call: \<open>str.strip\<close> (on ASCII text, \<open>py_strip\<close>),
  \<open>str\<close> of a value that is not a string, the constructor of the oracle, the
  connector's \<open>connect\<close> and \<open>execute_query\<close>, the oracle's \<open>connect_to_postgres\<close>,
  \<open>generate_rewritten_question\<close> and \<open>generate_sql\<close>, the validator's \<open>validate_sql\<close>,
  and the clock. A collaborator may raise. The calls made to the collaborators are
  recorded in order.
\<close>

datatype call =
    CreateInstance
  | Connect
  | ConnectToPostgres
  | TrainSystem
  | GenerateRewrittenQuestion pyval string
  | GenerateSql string
  | ValidateSql pyval string
  | ExecuteQuery string

record env =
  str_strip :: "string \<Rightarrow> string"
  str_of :: "pyval \<Rightarrow> string"
  create_instance :: "py_exn + unit"
  db_connect :: "py_exn + bool"
  connect_to_postgres :: "py_exn + unit"
  generate_rewritten_question :: "pyval \<Rightarrow> string \<Rightarrow> py_exn + pyval"
  generate_sql :: "string \<Rightarrow> py_exn + pyval"
  sql_validator :: "pyval \<Rightarrow> pyval \<Rightarrow> py_exn + (bool \<times> string option)"
  now :: nat
  db_execute_query :: "string \<Rightarrow> string option \<Rightarrow> py_exn + dataframe option"

record agent =
  config :: pydict
  vanna_instance :: bool
  initialized :: bool
  conversation_history :: "pydict list"
  max_history_length :: int

text \<open>The agent as \<open>__init__\<close> leaves it.\<close>

definition new_agent :: "pydict \<Rightarrow> agent" where
  "new_agent cfg = \<lparr>config = cfg, vanna_instance = False, initialized = False,
     conversation_history = [], max_history_length = 20\<rparr>"

definition py_str :: "env \<Rightarrow> pyval \<Rightarrow> string" where
  "py_str env v =
     (case v of
        PyStr s \<Rightarrow> s
      | PyNone \<Rightarrow> ''None''
      | PyBool b \<Rightarrow> (if b then ''True'' else ''False'')
      | _ \<Rightarrow> str_of env v)"

definition type_name :: "pyval \<Rightarrow> string" where
  "type_name v =
     (case v of
        PyNone \<Rightarrow> ''NoneType''
      | PyBool b \<Rightarrow> ''bool''
      | PyStr s \<Rightarrow> ''str''
      | PyDatetime t \<Rightarrow> ''datetime.datetime''
      | PyRecords rows \<Rightarrow> ''list'')"

definition attribute_error :: "pyval \<Rightarrow> string \<Rightarrow> py_exn" where
  "attribute_error v attr =
     PyException ([CHR 0x27] @ type_name v @ [CHR 0x27] @ '' object has no attribute ''
                    @ [CHR 0x27] @ attr @ [CHR 0x27])"

subsection \<open>Conversation history\<close>

text \<open>\<open>d.get(key)\<close>\<close>

definition py_get :: "pydict \<Rightarrow> string \<Rightarrow> pyval" where
  "py_get d key = (case d key of None \<Rightarrow> PyNone | Some value \<Rightarrow> value)"

fun last_question_scan :: "pydict list \<Rightarrow> pyval" where
  "last_question_scan [] = PyNone"
| "last_question_scan (item # items) =
     (if py_get item ''type'' = PyStr ''question''
         \<and> truthy (py_get item ''processed_question'')
      then py_get item ''processed_question''
      else last_question_scan items)"

definition get_last_question :: "agent \<Rightarrow> pyval" where
  "get_last_question a = last_question_scan (rev (conversation_history a))"

text \<open>\<open>xs[-n:]\<close>\<close>

definition py_last :: "int \<Rightarrow> 'a list \<Rightarrow> 'a list" where
  "py_last n xs = (if 0 < n then drop (length xs - nat n) xs else drop (nat (- n)) xs)"

definition add_to_conversation_history :: "nat \<Rightarrow> agent \<Rightarrow> pydict \<Rightarrow> agent" where
  "add_to_conversation_history t a entry =
     (let history = conversation_history a @ [entry(''timestamp'' \<mapsto> PyDatetime t)]
      in if max_history_length a < int (length history)
         then a\<lparr>conversation_history := py_last (max_history_length a) history\<rparr>
         else a\<lparr>conversation_history := history\<rparr>)"

definition rewrite_question_with_context :: "env \<Rightarrow> agent \<Rightarrow> string \<Rightarrow> call list \<times> string" where
  "rewrite_question_with_context env a question =
     (let last_question = get_last_question a in
      if \<not> truthy last_question then ([], question)
      else if \<not> vanna_instance a then ([], question)
      else ([GenerateRewrittenQuestion last_question question],
            case generate_rewritten_question env last_question question of
              Inl e \<Rightarrow> question
            | Inr (PyStr rewritten_question) \<Rightarrow>
                if rewritten_question \<noteq> []
                   \<and> str_strip env rewritten_question \<noteq> str_strip env question
                then str_strip env rewritten_question
                else question
            | Inr other \<Rightarrow> question))"

subsection \<open>Initialization\<close>

definition validate_config :: "agent \<Rightarrow> bool" where
  "validate_config a = (case config a ''api_key'' of None \<Rightarrow> False | Some key \<Rightarrow> truthy key)"

definition create_vanna_instance :: "env \<Rightarrow> agent \<Rightarrow> bool \<times> agent" where
  "create_vanna_instance env a =
     (case create_instance env of
        Inl e \<Rightarrow> (False, a)
      | Inr instance \<Rightarrow> (True, a\<lparr>vanna_instance := True\<rparr>))"

definition connect_database :: "env \<Rightarrow> bool \<times> call list" where
  "connect_database env =
     (case db_connect env of
        Inl e \<Rightarrow> (False, [Connect])
      | Inr connected \<Rightarrow>
          if \<not> connected then (False, [Connect])
          else (case connect_to_postgres env of
                  Inl e \<Rightarrow> (False, [Connect, ConnectToPostgres])
                | Inr u \<Rightarrow> (True, [Connect, ConnectToPostgres])))"

text \<open>
  \<open>_train_system\<close> catches every exception of its own body and returns nothing; it is
  the one call \<open>TrainSystem\<close>.
\<close>

definition initialize :: "env \<Rightarrow> agent \<Rightarrow> bool \<times> agent \<times> call list" where
  "initialize env a =
     (if \<not> validate_config a then (False, a, [])
      else (case create_vanna_instance env a of
              (created, a1) \<Rightarrow>
                if \<not> created then (False, a1, [CreateInstance])
                else (case connect_database env of
                        (connected, cs) \<Rightarrow>
                          if \<not> connected then (False, a1, CreateInstance # cs)
                          else (True, a1\<lparr>initialized := True\<rparr>,
                                CreateInstance # cs @ [TrainSystem]))))"

subsection \<open>ask and execute\<close>

definition validate_question :: "env \<Rightarrow> pyval \<Rightarrow> bool" where
  "validate_question env question =
     (case question of
        PyStr q \<Rightarrow> q \<noteq> [] \<and> str_strip env q \<noteq> []
      | _ \<Rightarrow> False)"

definition invalid_sql_message :: "string option \<Rightarrow> string" where
  "invalid_sql_message validation_error =
     [CHR 0xE7, CHR 0x94, CHR 0x9F, CHR 0xE6, CHR 0x88, CHR 0x90, CHR 0xE7, CHR 0x9A, CHR 0x84]
     @ ''SQL'' @ [CHR 0xE7, CHR 0x84, CHR 0xA1, CHR 0xE6, CHR 0x95, CHR 0x88] @ '': ''
     @ (case validation_error of None \<Rightarrow> ''None'' | Some reason \<Rightarrow> reason)
     @ ''. '' @ [CHR 0xE8, CHR 0xAB, CHR 0x8B, CHR 0xE9, CHR 0x87, CHR 0x8D, CHR 0xE6, CHR 0x96,
       CHR 0xB0, CHR 0xE6, CHR 0x8F, CHR 0x8F, CHR 0xE8, CHR 0xBF, CHR 0xB0, CHR 0xE6, CHR 0x82,
       CHR 0xA8, CHR 0xE7, CHR 0x9A, CHR 0x84, CHR 0xE5, CHR 0x95, CHR 0x8F, CHR 0xE9, CHR 0xA1,
       CHR 0x8C, CHR 0xE6, CHR 0x88, CHR 0x96, CHR 0xE6, CHR 0xAA, CHR 0xA2, CHR 0xE6, CHR 0x9F,
       CHR 0xA5, CHR 0xE6, CHR 0xAC, CHR 0x84, CHR 0xE4, CHR 0xBD, CHR 0x8D, CHR 0xE5, CHR 0x90,
       CHR 0x8D, CHR 0xE7, CHR 0xA8, CHR 0xB1, CHR 0xE3, CHR 0x80, CHR 0x82]"

definition history_entry :: "pyval \<Rightarrow> string \<Rightarrow> pyval \<Rightarrow> bool \<Rightarrow> pydict" where
  "history_entry question processed_question generated_sql use_conversation_context =
     [''type'' \<mapsto> PyStr ''question'',
      ''original_question'' \<mapsto> question,
      ''processed_question'' \<mapsto> PyStr processed_question,
      ''sql'' \<mapsto> generated_sql,
      ''context_used'' \<mapsto> PyBool use_conversation_context]"

definition ask_result :: "pyval \<Rightarrow> string \<Rightarrow> pyval \<Rightarrow> pydict" where
  "ask_result question processed_question generated_sql =
     (let result = [''question'' \<mapsto> question, ''sql'' \<mapsto> generated_sql]
      in if PyStr processed_question \<noteq> question
         then result(''processed_question'' \<mapsto> PyStr processed_question,
                     ''context_used'' \<mapsto> PyBool True)
         else result)"

text \<open>
  The body of the \<open>try\<close> block of \<open>ask\<close>: the calls made, and the exception raised or
  the new state and the dictionary returned. Nothing is assigned before the last
  call that may raise, so the handler finds the agent as it was. A value that is not
  a \<open>str\<close> never passes \<open>_validate_question\<close>.
\<close>

definition ask_body ::
  "env \<Rightarrow> agent \<Rightarrow> pyval \<Rightarrow> bool \<Rightarrow> call list \<times> (py_exn + agent \<times> pydict)" where
  "ask_body env a question use_conversation_context =
     (if \<not> validate_question env question
      then ([], Inr (a, [''error'' \<mapsto> PyStr ''Invalid question'',
                         ''question'' \<mapsto> PyStr (py_str env question)]))
      else (case question of
              PyStr q \<Rightarrow>
                (case (if use_conversation_context then rewrite_question_with_context env a q
                       else ([], q)) of
                   (rewriting, processed_question) \<Rightarrow>
                     if \<not> vanna_instance a
                     then (rewriting, Inl (attribute_error PyNone ''generate_sql''))
                     else (case generate_sql env processed_question of
                             Inl e \<Rightarrow> (rewriting @ [GenerateSql processed_question], Inl e)
                           | Inr generated_sql \<Rightarrow>
                               if \<not> truthy generated_sql
                               then (rewriting @ [GenerateSql processed_question],
                                     Inr (a, [''error'' \<mapsto> PyStr ''Failed to generate SQL'',
                                              ''question'' \<mapsto> question]))
                               else (let cs = rewriting @ [GenerateSql processed_question,
                                            ValidateSql generated_sql processed_question]
                                     in case sql_validator env generated_sql
                                               (PyStr processed_question) of
                                          Inl e \<Rightarrow> (cs, Inl e)
                                        | Inr (is_valid, validation_error) \<Rightarrow>
                                            if \<not> is_valid
                                            then (cs, Inr (a,
                                                   [''error'' \<mapsto> PyStr (invalid_sql_message
                                                                          validation_error),
                                                    ''question'' \<mapsto> question,
                                                    ''processed_question'' \<mapsto>
                                                       PyStr processed_question,
                                                    ''sql'' \<mapsto> generated_sql]))
                                            else (cs, Inr
                                                   (add_to_conversation_history (now env) a
                                                      (history_entry question processed_question
                                                         generated_sql use_conversation_context),
                                                    ask_result question processed_question
                                                      generated_sql)))))
            | _ \<Rightarrow> ([], Inl (attribute_error question ''strip''))))"

record outcome =
  after :: agent
  calls :: "call list"
  returned :: pydict

definition ask_try :: "env \<Rightarrow> agent \<Rightarrow> pyval \<Rightarrow> bool \<Rightarrow> outcome" where
  "ask_try env a question use_conversation_context =
     (case ask_body env a question use_conversation_context of
        (cs, Inl e) \<Rightarrow>
          \<lparr>after = a, calls = cs,
           returned = [''error'' \<mapsto> PyStr (exn_str e), ''question'' \<mapsto> question]\<rparr>
      | (cs, Inr (a', result)) \<Rightarrow> \<lparr>after = a', calls = cs, returned = result\<rparr>)"

definition not_initialized_result :: "pyval \<Rightarrow> pydict" where
  "not_initialized_result question =
     [''error'' \<mapsto> PyStr ''Vanna AI agent not initialized'', ''question'' \<mapsto> question]"

definition ask :: "env \<Rightarrow> agent \<Rightarrow> pyval \<Rightarrow> bool \<Rightarrow> outcome" where
  "ask env a question use_conversation_context =
     (if \<not> initialized a
      then (case initialize env a of
              (ok, a1, cs) \<Rightarrow>
                if \<not> ok
                then \<lparr>after = a1, calls = cs, returned = not_initialized_result question\<rparr>
                else (let r = ask_try env a1 question use_conversation_context
                      in r\<lparr>calls := cs @ calls r\<rparr>))
      else ask_try env a question use_conversation_context)"

text \<open>
  The body of the \<open>try\<close> block of \<open>execute\<close>, entered with the result of \<open>ask\<close> when it
  has no \<open>error\<close>. The result is assigned to only after the last call that may raise.
\<close>

definition execute_body ::
  "env \<Rightarrow> pyval \<Rightarrow> pydict \<Rightarrow> call list \<times> (py_exn + pydict)" where
  "execute_body env question result =
     (case result ''sql'' of
        None \<Rightarrow> ([], Inl (PyException ([CHR 0x27] @ ''sql'' @ [CHR 0x27])))
      | Some (PyStr generated_sql) \<Rightarrow>
          (let sql = str_strip env generated_sql in
           if sql = []
           then ([], Inr [''error'' \<mapsto> PyStr ''Empty SQL generated'',
                          ''question'' \<mapsto> question,
                          ''sql'' \<mapsto> PyStr sql,
                          ''success'' \<mapsto> PyBool False])
           else (case db_execute_query env sql None of
                   Inl e \<Rightarrow> ([ExecuteQuery sql], Inl e)
                 | Inr df \<Rightarrow>
                     ([ExecuteQuery sql],
                      Inr (result(''results'' \<mapsto>
                                    PyRecords (case df of
                                                 None \<Rightarrow> []
                                               | Some d \<Rightarrow>
                                                   if \<not> df_empty d then df_records d else []),
                                  ''success'' \<mapsto> PyBool (df \<noteq> None))))))
      | Some other \<Rightarrow> ([], Inl (attribute_error other ''strip'')))"

definition execute :: "env \<Rightarrow> agent \<Rightarrow> pyval \<Rightarrow> bool \<Rightarrow> outcome" where
  "execute env a question use_conversation_context =
     (let r = ask env a question use_conversation_context;
          result = returned r
      in if ''error'' \<in> dom result then r
         else (case execute_body env question result of
                 (cs, Inl e) \<Rightarrow>
                   r\<lparr>calls := calls r @ cs,
                     returned := result(''error'' \<mapsto> PyStr (exn_str e),
                                        ''success'' \<mapsto> PyBool False)\<rparr>
               | (cs, Inr executed) \<Rightarrow> r\<lparr>calls := calls r @ cs, returned := executed\<rparr>))"

subsection \<open>Sequences of appends and question turns\<close>

definition add_all :: "agent \<Rightarrow> (nat \<times> pydict) list \<Rightarrow> agent" where
  "add_all a appends = foldl (\<lambda>a (t, entry). add_to_conversation_history t a entry) a appends"

definition is_question_turn :: "pydict \<Rightarrow> bool" where
  "is_question_turn item =
     (py_get item ''type'' = PyStr ''question'' \<and> truthy (py_get item ''processed_question''))"

section \<open>Example inputs\<close>

definition failing_validator :: validator where
  "failing_validator = \<lparr>all_column_names = Inl (PyException ''connection lost''),
     invalid_order = invalid_patterns, strict_order = strict_invalid_patterns\<rparr>"

definition experiments_validator :: validator where
  "experiments_validator = \<lparr>all_column_names = Inr [''id'', ''name''],
     invalid_order = invalid_patterns, strict_order = strict_invalid_patterns\<rparr>"

definition select_sql :: string where
  "select_sql = ''SELECT id, conversion_rate FROM experiments''"

definition titled_validator :: validator where
  "titled_validator = \<lparr>all_column_names = Inr [''Name''],
     invalid_order = invalid_patterns, strict_order = strict_invalid_patterns\<rparr>"

subsection \<open>Agents\<close>

definition failing_driver :: driver where
  "failing_driver = \<lparr>connection_open = True, reconnect = True,
     run_statement = (\<lambda>query params. Inl (PsycopgError ''relation does not exist'')),
     open_after_error = True, rollback = Inr ()\<rparr>"

definition demo_env :: env where
  "demo_env = \<lparr>str_strip = py_strip, str_of = (\<lambda>v. ''''),
     create_instance = Inr (), db_connect = Inr True, connect_to_postgres = Inr (),
     generate_rewritten_question = (\<lambda>last_question new_question. Inr (PyStr new_question)),
     generate_sql = (\<lambda>question. Inr (PyStr ''SELECT id, name FROM experiments'')),
     sql_validator = validate_sql experiments_validator,
     now = 7,
     db_execute_query = connector_execute_query failing_driver\<rparr>"

definition ready_agent :: agent where
  "ready_agent = (new_agent [''api_key'' \<mapsto> PyStr ''key''])\<lparr>vanna_instance := True,
     initialized := True\<rparr>"

definition question_turn :: pydict where
  "question_turn = history_entry (PyStr ''X'') ''X'' (PyStr ''SELECT 1'') False"

definition note_entry :: pydict where
  "note_entry = [''type'' \<mapsto> PyStr ''note'']"

definition full_agent :: agent where
  "full_agent = ready_agent\<lparr>conversation_history := replicate 20 question_turn\<rparr>"




definition crashing_env :: env where
  "crashing_env = demo_env\<lparr>db_execute_query :=
     (\<lambda>sql params. Inl (PyException ''connection reset''))\<rparr>"

section \<open>Properties of the validator\<close>

text \<open>
  C1. For every pair of arguments \<open>validate_sql\<close> returns an outcome and never raises:
  an exception raised inside its body is caught, and the call then returns the valid
  outcome \<open>(True, None)\<close>.
\<close>

theorem validate_sql_never_raises:
  "(\<exists>outcome. validate_sql v sql question = Inr outcome)
   \<and> ((\<exists>e. validate_sql_body v sql question = Inl e)
        \<longrightarrow> validate_sql v sql question = Inr (True, None))"
proof (cases "validate_sql_body v sql question")
  case (Inl e)
  then have caught: "validate_sql v sql question = Inr (True, None)"
    by (simp add: validate_sql_def py_try_def)
  then have "\<exists>outcome. validate_sql v sql question = Inr outcome" by (rule exI)
  with caught show ?thesis by blast
next
  case (Inr outcome)
  then have "validate_sql v sql question = Inr outcome"
    by (simp add: validate_sql_def py_try_def)
  then have returned: "\<exists>outcome. validate_sql v sql question = Inr outcome" by (rule exI)
  from Inr have "\<not> (\<exists>e. validate_sql_body v sql question = Inl e)" by simp
  with returned show ?thesis by blast
qed

theorem validate_sql_never_raises_witness:
  "validate_sql_body failing_validator (PyStr ''SELECT 1'') (PyStr ''one'')
     = Inl (PyException ''connection lost'')
   \<and> validate_sql failing_validator (PyStr ''SELECT 1'') (PyStr ''one'') = Inr (True, None)"
proof -
  have body: "validate_sql_body failing_validator (PyStr ''SELECT 1'') (PyStr ''one'')
     = Inl (PyException ''connection lost'')"
    by code_simp
  with validate_sql_never_raises [of failing_validator "PyStr ''SELECT 1''" "PyStr ''one''"]
  show ?thesis by blast
qed

text \<open>
  C2. The claim says that \<open>SELECT id, conversion_rate FROM experiments\<close> is rejected
  when \<open>conversion_rate\<close> is no column. The only occurrence of the name lies between
  \<open>select\<close> and \<open>from\<close>, where \<open>_is_invalid_column_usage\<close> accepts every occurrence, so
  the query validates: here for a schema whose columns are \<open>id\<close> and \<open>name\<close>.
\<close>

theorem select_clause_occurrence_counterexample:
  "validate_sql experiments_validator (PyStr ''SELECT id, conversion_rate FROM experiments'')
     (PyStr ''conversion rate of experiments'') = Inr (True, None)"
  by code_simp

lemma check_patterns_none:
  "(\<And>p. p \<in> set ps \<Longrightarrow> \<not> (py_in p s \<and> is_invalid_column_usage s p al))
   \<Longrightarrow> check_patterns s cols al ps = None"
  by (induction ps) auto

lemma select_sql_facts:
  "is_basic_sql_valid (PyStr select_sql)" "\<not> contains_error_message select_sql"
  "\<not> is_cte (py_lower select_sql)" "extract_select_aliases select_sql = []"
  "list_all (\<lambda>p. \<not> (py_in p (py_lower select_sql)
       \<and> is_invalid_column_usage (py_lower select_sql) p [])) invalid_patterns"
  by code_simp+

text \<open>
  C2, amended. Validating the SQL string \<open>SELECT id, conversion_rate FROM experiments\<close>
  returns the valid outcome \<open>(True, None)\<close>, for every schema (so also for one in which
  \<open>conversion_rate\<close> is not a column of any table), every outcome of reading the schema,
  every question and every order in which the denylist is iterated.
\<close>

theorem select_clause_occurrence:
  assumes order: "iterates v"
  shows "validate_sql v (PyStr ''SELECT id, conversion_rate FROM experiments'') question
           = Inr (True, None)"
proof (cases "all_column_names v")
  case (Inl e)
  then have "check_column_validity v select_sql = Inl e"
    using select_sql_facts(3) by (simp add: check_column_validity_def)
  then have "validate_sql_body v (PyStr select_sql) question = Inl e"
    using select_sql_facts(1,2) by (simp add: validate_sql_body_def)
  then have "validate_sql v (PyStr select_sql) question = Inr (True, None)"
    by (simp add: validate_sql_def py_try_def)
  then show ?thesis by (simp add: select_sql_def)
next
  case (Inr all_columns)
  from order have pats: "set (invalid_order v) = set invalid_patterns"
    by (simp add: iterates_def)
  have "check_patterns (py_lower select_sql) (map py_lower all_columns) []
          (invalid_order v) = None"
  proof (rule check_patterns_none)
    fix p assume "p \<in> set (invalid_order v)"
    with pats have "p \<in> set invalid_patterns" by simp
    with select_sql_facts(5)
    show "\<not> (py_in p (py_lower select_sql)
              \<and> is_invalid_column_usage (py_lower select_sql) p [])"
      unfolding list_all_iff by blast
  qed
  then have "check_column_validity v select_sql = Inr None"
    using Inr select_sql_facts(3,4) by (simp add: check_column_validity_def)
  then have "validate_sql_body v (PyStr select_sql) question = Inr (True, None)"
    using select_sql_facts(1,2) by (simp add: validate_sql_body_def)
  then have "validate_sql v (PyStr select_sql) question = Inr (True, None)"
    by (simp add: validate_sql_def py_try_def)
  then show ?thesis by (simp add: select_sql_def)
qed

theorem select_clause_occurrence_witness:
  "iterates experiments_validator
   \<and> all_column_names experiments_validator = Inr [''id'', ''name'']
   \<and> validate_sql experiments_validator
        (PyStr ''SELECT id, conversion_rate FROM experiments'') PyNone = Inr (True, None)"
proof -
  have order: "iterates experiments_validator"
    by (simp add: iterates_def experiments_validator_def)
  have columns: "all_column_names experiments_validator = Inr [''id'', ''name'']"
    by (simp add: experiments_validator_def)
  from select_clause_occurrence [OF order, of PyNone] order columns
  show ?thesis by blast
qed

text \<open>
  C7. The claim says the comparison is case-sensitive. The source lowers both names
  first: for the schema column \<open>Name\<close> and the invalid name \<open>name\<close> the column is
  suggested although neither string contains the other.
\<close>

lemma py_in_sublist: "py_in sub s = sublist sub s"
  by (induction s) (simp_all add: sublist_Cons_right)

theorem suggestions_case_counterexample:
  "get_column_suggestions py_lower titled_validator ''name'' = Inr [''Name'']
   \<and> \<not> sublist ''name'' ''Name'' \<and> \<not> sublist ''Name'' ''name''"
proof -
  have "get_column_suggestions py_lower titled_validator ''name'' = Inr [''Name'']"
    by code_simp
  moreover have "\<not> py_in ''name'' ''Name''" by code_simp
  moreover have "\<not> py_in ''Name'' ''name''" by code_simp
  ultimately show ?thesis by (simp only: py_in_sublist simp_thms)
qed

text \<open>
  C7, amended. For every invalid name \<open>get_column_suggestions\<close> returns at most 3 schema
  column names, and each of them, lowered by \<open>str.lower\<close>, contains the invalid name
  lowered by \<open>str.lower\<close> or is contained in it: the comparison ignores case. This
  holds whatever \<open>str.lower\<close> does to a name, so for names of any script.
\<close>

theorem get_column_suggestions_lowered:
  assumes "all_column_names v = Inr all_columns"
  shows "\<exists>suggestions. get_column_suggestions lower v invalid_column = Inr suggestions
           \<and> length suggestions \<le> 3
           \<and> (\<forall>col \<in> set suggestions. col \<in> set all_columns
                \<and> (sublist (lower invalid_column) (lower col)
                    \<or> sublist (lower col) (lower invalid_column)))"
proof -
  let ?hit = "\<lambda>col. py_in (lower invalid_column) (lower col)
                    \<or> py_in (lower col) (lower invalid_column)"
  let ?found = "take 3 (filter ?hit all_columns)"
  have result: "get_column_suggestions lower v invalid_column = Inr ?found"
    using assms by (simp add: get_column_suggestions_def Let_def)
  have short: "length ?found \<le> 3" by simp
  have each: "\<forall>col \<in> set ?found. col \<in> set all_columns
                \<and> (sublist (lower invalid_column) (lower col)
                    \<or> sublist (lower col) (lower invalid_column))"
  proof
    fix col assume "col \<in> set ?found"
    then have "col \<in> set (filter ?hit all_columns)" by (rule in_set_takeD)
    then show "col \<in> set all_columns
                \<and> (sublist (lower invalid_column) (lower col)
                    \<or> sublist (lower col) (lower invalid_column))"
      by (simp add: py_in_sublist)
  qed
  from result short each show ?thesis by blast
qed

theorem get_column_suggestions_lowered_witness:
  "all_column_names titled_validator = Inr [''Name'']
   \<and> (\<exists>suggestions. get_column_suggestions py_lower titled_validator ''name'' = Inr suggestions
           \<and> length suggestions \<le> 3
           \<and> (\<forall>col \<in> set suggestions. col \<in> set [''Name'']
                \<and> (sublist (py_lower ''name'') (py_lower col)
                    \<or> sublist (py_lower col) (py_lower ''name''))))"
proof -
  have cols: "all_column_names titled_validator = Inr [''Name'']"
    by (simp add: titled_validator_def)
  from cols get_column_suggestions_lowered [OF cols, of py_lower "''name''"]
  show ?thesis by (rule conjI)
qed

section \<open>Properties of the conversation history\<close>

lemma add_history:
  assumes "max_history_length a = 20"
  shows "conversation_history (add_to_conversation_history t a entry)
           = drop (length (conversation_history a) + 1 - 20)
               (conversation_history a @ [entry(''timestamp'' \<mapsto> PyDatetime t)])"
  using assms by (simp add: add_to_conversation_history_def py_last_def Let_def)

lemma add_max [simp]:
  "max_history_length (add_to_conversation_history t a entry) = max_history_length a"
  by (simp add: add_to_conversation_history_def Let_def)

lemma add_all_max [simp]: "max_history_length (add_all a appends) = max_history_length a"
  unfolding add_all_def by (induction appends arbitrary: a) (simp_all add: split_def)

lemma add_all_snoc:
  "add_all a (appends @ [(t, entry)]) = add_to_conversation_history t (add_all a appends) entry"
  by (simp add: add_all_def)

lemma add_length:
  assumes "max_history_length a = 20"
  shows "length (conversation_history (add_to_conversation_history t a entry)) \<le> 20"
  using assms by (simp add: add_history)

lemma add_all_length:
  assumes "max_history_length a = 20" and "appends \<noteq> []"
  shows "length (conversation_history (add_all a appends)) \<le> 20"
proof -
  from assms(2) obtain front t entry where "appends = front @ [(t, entry)]"
    by (metis rev_exhaust surj_pair)
  then have "add_all a appends = add_to_conversation_history t (add_all a front) entry"
    by (simp add: add_all_snoc)
  moreover have "max_history_length (add_all a front) = 20" using assms(1) by simp
  ultimately show ?thesis by (simp add: add_length)
qed

text \<open>
  C4. With the bound 20 that \<open>__init__\<close> sets, the history after an append is the old
  history followed by the new entry, without its oldest entries beyond 20: a suffix,
  so the survivors keep their order. It has at most 20 entries; appending to a history
  of 20 keeps all but the first and the new entry; and after each append of any
  sequence of appends the history has at most 20 entries.
\<close>

theorem history_bounded:
  assumes "max_history_length a = 20"
  shows "conversation_history (add_to_conversation_history t a entry)
           = drop (length (conversation_history a) + 1 - 20)
               (conversation_history a @ [entry(''timestamp'' \<mapsto> PyDatetime t)])
         \<and> length (conversation_history (add_to_conversation_history t a entry)) \<le> 20
         \<and> (length (conversation_history a) = 20 \<longrightarrow>
              conversation_history (add_to_conversation_history t a entry)
                = tl (conversation_history a) @ [entry(''timestamp'' \<mapsto> PyDatetime t)])
         \<and> (\<forall>k. 0 < k \<and> k \<le> length appends \<longrightarrow>
                length (conversation_history (add_all a (take k appends))) \<le> 20)"
proof -
  have suffix: "conversation_history (add_to_conversation_history t a entry)
           = drop (length (conversation_history a) + 1 - 20)
               (conversation_history a @ [entry(''timestamp'' \<mapsto> PyDatetime t)])"
    using assms by (rule add_history)
  have bound: "length (conversation_history (add_to_conversation_history t a entry)) \<le> 20"
    using assms by (rule add_length)
  have full: "length (conversation_history a) = 20 \<longrightarrow>
              conversation_history (add_to_conversation_history t a entry)
                = tl (conversation_history a) @ [entry(''timestamp'' \<mapsto> PyDatetime t)]"
  proof
    assume len: "length (conversation_history a) = 20"
    then have "conversation_history a \<noteq> []" by auto
    with len suffix show "conversation_history (add_to_conversation_history t a entry)
                = tl (conversation_history a) @ [entry(''timestamp'' \<mapsto> PyDatetime t)]"
      by (simp add: drop_Suc)
  qed
  have every: "\<forall>k. 0 < k \<and> k \<le> length appends \<longrightarrow>
                length (conversation_history (add_all a (take k appends))) \<le> 20"
  proof (intro allI impI)
    fix k assume "0 < k \<and> k \<le> length appends"
    then have "take k appends \<noteq> []" by auto
    with assms show "length (conversation_history (add_all a (take k appends))) \<le> 20"
      by (rule add_all_length)
  qed
  from suffix bound full every show ?thesis by blast
qed

theorem history_bounded_witness:
  "max_history_length full_agent = 20
   \<and> length (conversation_history full_agent) = 20
   \<and> conversation_history (add_to_conversation_history 7 full_agent note_entry)
       = tl (conversation_history full_agent) @ [note_entry(''timestamp'' \<mapsto> PyDatetime 7)]
   \<and> length (conversation_history (add_all full_agent (take 1 [(7, note_entry)]))) \<le> 20"
proof -
  have bound: "max_history_length full_agent = 20"
    by (simp add: full_agent_def ready_agent_def new_agent_def)
  have full: "length (conversation_history full_agent) = 20"
    by (simp add: full_agent_def)
  have one: "0 < (1::nat) \<and> 1 \<le> length [(7::nat, note_entry)]" by simp
  from history_bounded [OF bound, of 7 note_entry "[(7, note_entry)]"] bound full one
  show ?thesis by blast
qed

lemma scan_skip:
  "\<forall>entry \<in> set newer. \<not> is_question_turn entry
   \<Longrightarrow> last_question_scan (newer @ older) = last_question_scan older"
proof (induction newer)
  case Nil
  show ?case by simp
next
  case (Cons entry newer)
  then have "\<not> is_question_turn entry"
    and "last_question_scan (newer @ older) = last_question_scan older"
    by simp_all
  then show ?case by (auto simp add: is_question_turn_def)
qed

lemma scan_hit:
  "is_question_turn item
   \<Longrightarrow> last_question_scan (item # older) = py_get item ''processed_question''"
  by (simp add: is_question_turn_def)

lemma last_question_found:
  assumes "conversation_history a = older @ [item] @ newer"
    and "is_question_turn item"
    and "\<forall>entry \<in> set newer. \<not> is_question_turn entry"
  shows "get_last_question a = py_get item ''processed_question''"
proof -
  have "rev (conversation_history a) = rev newer @ (item # rev older)"
    using assms(1) by simp
  moreover have "\<forall>entry \<in> set (rev newer). \<not> is_question_turn entry"
    using assms(3) by simp
  ultimately have "get_last_question a = last_question_scan (item # rev older)"
    by (simp only: get_last_question_def scan_skip)
  with assms(2) show ?thesis by (simp only: scan_hit)
qed

lemma last_question_none:
  assumes "\<forall>entry \<in> set (conversation_history a). \<not> is_question_turn entry"
  shows "get_last_question a = PyNone"
proof -
  from assms have "\<forall>entry \<in> set (rev (conversation_history a)). \<not> is_question_turn entry"
    by simp
  then have "last_question_scan (rev (conversation_history a) @ []) = last_question_scan []"
    by (rule scan_skip)
  then show ?thesis by (simp add: get_last_question_def)
qed

lemma stamped_turn [simp]:
  "is_question_turn (entry(''timestamp'' \<mapsto> stamp)) = is_question_turn entry"
  by (simp add: is_question_turn_def py_get_def)

lemma stamped_processed [simp]:
  "py_get (entry(''timestamp'' \<mapsto> stamp)) ''processed_question''
     = py_get entry ''processed_question''"
  by (simp add: py_get_def)

lemma add_snoc:
  assumes "max_history_length a = 20"
  shows "conversation_history (add_to_conversation_history t a entry)
           = drop (length (conversation_history a) + 1 - 20) (conversation_history a)
               @ [entry(''timestamp'' \<mapsto> PyDatetime t)]"
  using assms by (simp add: add_history)

lemma add_keeps_previous:
  assumes "max_history_length a = 20" and "conversation_history a = front @ [previous]"
  shows "\<exists>kept. conversation_history (add_to_conversation_history t a entry)
           = kept @ [previous] @ [entry(''timestamp'' \<mapsto> PyDatetime t)]"
proof -
  have "length front + 2 - 20 \<le> length front" by simp
  then have "drop (length front + 2 - 20) (front @ [previous])
               = drop (length front + 2 - 20) front @ [previous]"
    by simp
  with assms show ?thesis by (simp add: add_snoc)
qed

text \<open>
  C5. \<open>_get_last_question\<close> returns \<open>None\<close> on an empty history, and on a history with no
  entry of type \<open>question\<close> with a processed question that is not empty. Otherwise it
  returns the processed question of the most recent such entry, whatever follows it.
  After a question turn with the processed question \<open>X\<close> is appended the result is
  \<open>X\<close>, and it still is after an entry that is no such turn is appended next.
\<close>

theorem get_last_question_most_recent:
  "(conversation_history a = [] \<longrightarrow> get_last_question a = PyNone)
   \<and> ((\<forall>entry \<in> set (conversation_history a). \<not> is_question_turn entry)
        \<longrightarrow> get_last_question a = PyNone)
   \<and> (conversation_history a = older @ [item] @ newer \<and> is_question_turn item
        \<and> (\<forall>entry \<in> set newer. \<not> is_question_turn entry)
        \<longrightarrow> get_last_question a = py_get item ''processed_question'')
   \<and> (max_history_length a = 20 \<and> turn ''type'' = Some (PyStr ''question'')
        \<and> turn ''processed_question'' = Some (PyStr x) \<and> x \<noteq> []
        \<and> \<not> is_question_turn other
        \<longrightarrow> get_last_question (add_to_conversation_history t a turn) = PyStr x
            \<and> get_last_question
                  (add_to_conversation_history t' (add_to_conversation_history t a turn) other)
                = PyStr x)"
proof -
  have empty: "conversation_history a = [] \<longrightarrow> get_last_question a = PyNone"
    by (simp add: get_last_question_def)
  have none: "(\<forall>entry \<in> set (conversation_history a). \<not> is_question_turn entry)
        \<longrightarrow> get_last_question a = PyNone"
    using last_question_none by blast
  have found: "conversation_history a = older @ [item] @ newer \<and> is_question_turn item
        \<and> (\<forall>entry \<in> set newer. \<not> is_question_turn entry)
        \<longrightarrow> get_last_question a = py_get item ''processed_question''"
    using last_question_found by blast
  have appended: "max_history_length a = 20 \<and> turn ''type'' = Some (PyStr ''question'')
        \<and> turn ''processed_question'' = Some (PyStr x) \<and> x \<noteq> []
        \<and> \<not> is_question_turn other
        \<longrightarrow> get_last_question (add_to_conversation_history t a turn) = PyStr x
            \<and> get_last_question
                  (add_to_conversation_history t' (add_to_conversation_history t a turn) other)
                = PyStr x"
  proof (intro impI)
    assume asm: "max_history_length a = 20 \<and> turn ''type'' = Some (PyStr ''question'')
        \<and> turn ''processed_question'' = Some (PyStr x) \<and> x \<noteq> []
        \<and> \<not> is_question_turn other"
    let ?turn = "turn(''timestamp'' \<mapsto> PyDatetime t)"
    let ?other = "other(''timestamp'' \<mapsto> PyDatetime t')"
    let ?a1 = "add_to_conversation_history t a turn"
    from asm have is_turn: "is_question_turn ?turn"
      by (simp add: is_question_turn_def py_get_def)
    from asm have processed: "py_get ?turn ''processed_question'' = PyStr x"
      by (simp add: py_get_def)
    from asm have no_turn: "\<not> is_question_turn ?other" by simp
    from asm have first: "conversation_history ?a1
        = drop (length (conversation_history a) + 1 - 20) (conversation_history a) @ [?turn]"
      by (simp add: add_snoc)
    then have "conversation_history ?a1
        = drop (length (conversation_history a) + 1 - 20) (conversation_history a)
            @ [?turn] @ []"
      by simp
    then have one: "get_last_question ?a1 = PyStr x"
      using is_turn processed by (simp add: last_question_found)
    from asm have "max_history_length ?a1 = 20" by simp
    then obtain kept where "conversation_history (add_to_conversation_history t' ?a1 other)
        = kept @ [?turn] @ [?other]"
      using first add_keeps_previous by blast
    then have two: "get_last_question (add_to_conversation_history t' ?a1 other) = PyStr x"
      using is_turn processed no_turn by (simp add: last_question_found)
    from one two show "get_last_question ?a1 = PyStr x
            \<and> get_last_question (add_to_conversation_history t' ?a1 other) = PyStr x"
      by simp
  qed
  from empty none found appended show ?thesis by blast
qed

theorem get_last_question_most_recent_witness:
  "get_last_question (new_agent Map.empty) = PyNone
   \<and> get_last_question (add_to_conversation_history 1 (new_agent Map.empty) question_turn)
       = PyStr ''X''
   \<and> get_last_question
         (add_to_conversation_history 2
            (add_to_conversation_history 1 (new_agent Map.empty) question_turn) note_entry)
       = PyStr ''X''
   \<and> get_last_question (ready_agent\<lparr>conversation_history := [question_turn, note_entry]\<rparr>)
       = py_get question_turn ''processed_question''"
proof -
  have none: "conversation_history (new_agent Map.empty) = []" by (simp add: new_agent_def)
  have bound: "max_history_length (new_agent Map.empty) = 20" by (simp add: new_agent_def)
  have kind: "question_turn ''type'' = Some (PyStr ''question'')"
    by (simp add: question_turn_def history_entry_def)
  have processed: "question_turn ''processed_question'' = Some (PyStr ''X'')"
    by (simp add: question_turn_def history_entry_def)
  have other: "\<not> is_question_turn note_entry"
    by (simp add: is_question_turn_def note_entry_def py_get_def)
  have turn: "is_question_turn question_turn"
    by (simp add: is_question_turn_def py_get_def kind processed)
  have split: "conversation_history (ready_agent\<lparr>conversation_history := [question_turn, note_entry]\<rparr>)
                 = [] @ [question_turn] @ [note_entry]"
    by simp
  have later: "\<forall>entry \<in> set [note_entry]. \<not> is_question_turn entry" using other by simp
  have text_given: "''X'' \<noteq> []" by simp
  from get_last_question_most_recent
         [where a = "new_agent Map.empty" and turn = question_turn and x = "''X''"
            and other = note_entry and t = 1 and t' = 2]
       none bound kind processed other text_given
  have first: "get_last_question (new_agent Map.empty) = PyNone
   \<and> get_last_question (add_to_conversation_history 1 (new_agent Map.empty) question_turn)
       = PyStr ''X''
   \<and> get_last_question
         (add_to_conversation_history 2
            (add_to_conversation_history 1 (new_agent Map.empty) question_turn) note_entry)
       = PyStr ''X''"
    by blast
  from get_last_question_most_recent
         [where a = "ready_agent\<lparr>conversation_history := [question_turn, note_entry]\<rparr>"
            and older = "[]" and item = question_turn and newer = "[note_entry]"]
       split turn later
  have second: "get_last_question
                  (ready_agent\<lparr>conversation_history := [question_turn, note_entry]\<rparr>)
                  = py_get question_turn ''processed_question''"
    by blast
  from first second show ?thesis by blast
qed

section \<open>Properties of ask and execute\<close>




lemma initialize_failed:
  assumes "initialize env a = (False, a1, cs)"
  shows "initialized a1 = initialized a"
  using assms
  by (auto simp add: initialize_def create_vanna_instance_def connect_database_def
           split: if_splits sum.splits prod.splits)




lemma rewrite_calls:
  assumes "rewrite_question_with_context env a q = (cs, processed)"
  shows "\<forall>p. GenerateSql p \<notin> set cs"
  using assms
  by (auto simp add: rewrite_question_with_context_def Let_def split: if_splits)


















lemma execute_ran:
  assumes "''error'' \<notin> dom (returned (ask env a question ctx))"
    and "returned (ask env a question ctx) ''sql'' = Some (PyStr generated_sql)"
    and "str_strip env generated_sql \<noteq> []"
  shows "execute env a question ctx
           = (case db_execute_query env (str_strip env generated_sql) None of
                Inl e \<Rightarrow>
                  (ask env a question ctx)
                    \<lparr>calls := calls (ask env a question ctx)
                                @ [ExecuteQuery (str_strip env generated_sql)],
                     returned := (returned (ask env a question ctx))
                       (''error'' \<mapsto> PyStr (exn_str e), ''success'' \<mapsto> PyBool False)\<rparr>
              | Inr df \<Rightarrow>
                  (ask env a question ctx)
                    \<lparr>calls := calls (ask env a question ctx)
                                @ [ExecuteQuery (str_strip env generated_sql)],
                     returned := (returned (ask env a question ctx))
                       (''results'' \<mapsto>
                          PyRecords (case df of
                                       None \<Rightarrow> []
                                     | Some d \<Rightarrow> if \<not> df_empty d then df_records d else []),
                        ''success'' \<mapsto> PyBool (df \<noteq> None))\<rparr>)"
  using assms by (simp add: execute_def execute_body_def Let_def split: sum.splits)

lemma connector_reports_failure:
  assumes "\<forall>m. rollback d \<noteq> Inl (OtherError m)"
  shows "(\<not> connection_open d \<and> \<not> reconnect d
            \<longrightarrow> connector_execute_query d query params = Inr None)
         \<and> (\<forall>raised. run_statement d query params = Inl raised
            \<longrightarrow> connector_execute_query d query params = Inr None)"
  using assms
  by (auto simp add: connector_execute_query_def split: sum.splits db_exn.splits)

text \<open>
  C9. The claim says that when the SQL fails on the database \<open>execute\<close> returns the
  result of \<open>ask\<close> with an error and \<open>success = False\<close>.
  \<open>PostgreSQLConnector.execute_query\<close> catches the exception of a statement that fails
  and returns \<open>None\<close>; \<open>execute\<close> then adds \<open>results = []\<close> and \<open>success = False\<close>, and no
  error.
\<close>

theorem failed_query_counterexample:
  "run_statement failing_driver ''SELECT id, name FROM experiments'' None
     = Inl (PsycopgError ''relation does not exist'')
   \<and> returned (ask demo_env ready_agent (PyStr ''list experiments'') False) ''error'' = None
   \<and> returned (ask demo_env ready_agent (PyStr ''list experiments'') False) ''sql''
       = Some (PyStr ''SELECT id, name FROM experiments'')
   \<and> returned (execute demo_env ready_agent (PyStr ''list experiments'') False) ''error'' = None
   \<and> returned (execute demo_env ready_agent (PyStr ''list experiments'') False) ''success''
       = Some (PyBool False)
   \<and> returned (execute demo_env ready_agent (PyStr ''list experiments'') False) ''results''
       = Some (PyRecords [])"
  by (intro conjI; code_simp)

text \<open>
  C9, amended. Let \<open>ask\<close> succeed with SQL that is a string and not blank. If the
  connector's \<open>execute_query\<close> returns \<open>None\<close>, \<open>execute\<close> returns the result of \<open>ask\<close>
  with \<open>results = []\<close> and \<open>success = False\<close> added, and no error; if it raises,
  \<open>execute\<close> returns the result of \<open>ask\<close> with \<open>error = str(e)\<close> and \<open>success = False\<close>
  added. Either way the question and the SQL of the result of \<open>ask\<close> are kept, the
  agent is as \<open>ask\<close> left it and the one call added is this \<open>execute_query\<close>.
  \<open>PostgreSQLConnector.execute_query\<close> returns \<open>None\<close> when it cannot connect and when
  the statement raises, unless \<open>rollback\<close> raises an exception that is no \<open>psycopg.Error\<close>.
\<close>

theorem execute_failure:
  assumes "''error'' \<notin> dom (returned (ask env a question ctx))"
    and "returned (ask env a question ctx) ''sql'' = Some (PyStr generated_sql)"
    and "str_strip env generated_sql \<noteq> []"
  shows "(db_execute_query env (str_strip env generated_sql) None = Inr None \<longrightarrow>
            returned (execute env a question ctx)
              = (returned (ask env a question ctx))
                  (''results'' \<mapsto> PyRecords [], ''success'' \<mapsto> PyBool False)
            \<and> ''error'' \<notin> dom (returned (execute env a question ctx)))
         \<and> (\<forall>e. db_execute_query env (str_strip env generated_sql) None = Inl e \<longrightarrow>
            returned (execute env a question ctx)
              = (returned (ask env a question ctx))
                  (''error'' \<mapsto> PyStr (exn_str e), ''success'' \<mapsto> PyBool False))
         \<and> returned (execute env a question ctx) ''question''
             = returned (ask env a question ctx) ''question''
         \<and> returned (execute env a question ctx) ''sql''
             = returned (ask env a question ctx) ''sql''
         \<and> after (execute env a question ctx) = after (ask env a question ctx)
         \<and> calls (execute env a question ctx)
             = calls (ask env a question ctx) @ [ExecuteQuery (str_strip env generated_sql)]
         \<and> ((\<forall>m. rollback d \<noteq> Inl (OtherError m)) \<longrightarrow>
              (\<not> connection_open d \<and> \<not> reconnect d
                 \<longrightarrow> connector_execute_query d query params = Inr None)
              \<and> (\<forall>raised. run_statement d query params = Inl raised
                 \<longrightarrow> connector_execute_query d query params = Inr None))"
proof -
  note ran = execute_ran [OF assms]
  from assms(1) have no_error: "returned (ask env a question ctx) ''error'' = None"
    by (simp add: domIff)
  have none: "db_execute_query env (str_strip env generated_sql) None = Inr None \<longrightarrow>
            returned (execute env a question ctx)
              = (returned (ask env a question ctx))
                  (''results'' \<mapsto> PyRecords [], ''success'' \<mapsto> PyBool False)
            \<and> ''error'' \<notin> dom (returned (execute env a question ctx))"
    using no_error by (simp add: ran domIff)
  have raised: "\<forall>e. db_execute_query env (str_strip env generated_sql) None = Inl e \<longrightarrow>
            returned (execute env a question ctx)
              = (returned (ask env a question ctx))
                  (''error'' \<mapsto> PyStr (exn_str e), ''success'' \<mapsto> PyBool False)"
    by (simp add: ran)
  have question_kept: "returned (execute env a question ctx) ''question''
             = returned (ask env a question ctx) ''question''"
    by (simp add: ran split: sum.splits)
  have sql_kept: "returned (execute env a question ctx) ''sql''
             = returned (ask env a question ctx) ''sql''"
    by (simp add: ran split: sum.splits)
  have state: "after (execute env a question ctx) = after (ask env a question ctx)"
    by (simp add: ran split: sum.splits)
  have made: "calls (execute env a question ctx)
             = calls (ask env a question ctx) @ [ExecuteQuery (str_strip env generated_sql)]"
    by (simp add: ran split: sum.splits)
  have connector: "(\<forall>m. rollback d \<noteq> Inl (OtherError m)) \<longrightarrow>
              (\<not> connection_open d \<and> \<not> reconnect d
                 \<longrightarrow> connector_execute_query d query params = Inr None)
              \<and> (\<forall>raised. run_statement d query params = Inl raised
                 \<longrightarrow> connector_execute_query d query params = Inr None)"
    by (rule impI) (rule connector_reports_failure)
  from none raised question_kept sql_kept state made connector show ?thesis
    by (intro conjI)
qed

theorem execute_failure_witness:
  "''error'' \<notin> dom (returned (ask demo_env ready_agent (PyStr ''list experiments'') False))
   \<and> db_execute_query demo_env (str_strip demo_env ''SELECT id, name FROM experiments'') None
       = Inr None
   \<and> returned (execute demo_env ready_agent (PyStr ''list experiments'') False)
       = (returned (ask demo_env ready_agent (PyStr ''list experiments'') False))
           (''results'' \<mapsto> PyRecords [], ''success'' \<mapsto> PyBool False)
   \<and> db_execute_query crashing_env (str_strip crashing_env ''SELECT id, name FROM experiments'')
         None
       = Inl (PyException ''connection reset'')
   \<and> returned (execute crashing_env ready_agent (PyStr ''list experiments'') False)
       = (returned (ask crashing_env ready_agent (PyStr ''list experiments'') False))
           (''error'' \<mapsto> PyStr ''connection reset'', ''success'' \<mapsto> PyBool False)
   \<and> connector_execute_query failing_driver ''SELECT id, name FROM experiments'' None
       = Inr None"
proof -
  have "returned (ask demo_env ready_agent (PyStr ''list experiments'') False) ''error'' = None"
    by code_simp
  then have good:
    "''error'' \<notin> dom (returned (ask demo_env ready_agent (PyStr ''list experiments'') False))"
    by (simp only: domIff not_not)
  have sql: "returned (ask demo_env ready_agent (PyStr ''list experiments'') False) ''sql''
               = Some (PyStr ''SELECT id, name FROM experiments'')"
    by code_simp
  have kept: "str_strip demo_env ''SELECT id, name FROM experiments'' \<noteq> []" by code_simp
  have failed: "db_execute_query demo_env
                  (str_strip demo_env ''SELECT id, name FROM experiments'') None = Inr None"
    by code_simp
  have "returned (ask crashing_env ready_agent (PyStr ''list experiments'') False) ''error'' = None"
    by code_simp
  then have good':
    "''error'' \<notin> dom (returned (ask crashing_env ready_agent (PyStr ''list experiments'') False))"
    by (simp only: domIff not_not)
  have sql': "returned (ask crashing_env ready_agent (PyStr ''list experiments'') False) ''sql''
               = Some (PyStr ''SELECT id, name FROM experiments'')"
    by code_simp
  have kept': "str_strip crashing_env ''SELECT id, name FROM experiments'' \<noteq> []" by code_simp
  have crashed: "db_execute_query crashing_env
                  (str_strip crashing_env ''SELECT id, name FROM experiments'') None
                  = Inl (PyException ''connection reset'')"
    by code_simp
  have clean: "\<forall>m. rollback failing_driver \<noteq> Inl (OtherError m)"
    by (simp add: failing_driver_def)
  have statement: "run_statement failing_driver ''SELECT id, name FROM experiments'' None
     = Inl (PsycopgError ''relation does not exist'')"
    by (simp add: failing_driver_def)
  from execute_failure [OF good sql kept, of failing_driver
         "''SELECT id, name FROM experiments''" None] failed clean statement
  have first: "returned (execute demo_env ready_agent (PyStr ''list experiments'') False)
       = (returned (ask demo_env ready_agent (PyStr ''list experiments'') False))
           (''results'' \<mapsto> PyRecords [], ''success'' \<mapsto> PyBool False)
     \<and> connector_execute_query failing_driver ''SELECT id, name FROM experiments'' None
       = Inr None"
    by blast
  from execute_failure [OF good' sql' kept', of failing_driver
         "''SELECT id, name FROM experiments''" None] crashed
  have "returned (execute crashing_env ready_agent (PyStr ''list experiments'') False)
       = (returned (ask crashing_env ready_agent (PyStr ''list experiments'') False))
           (''error'' \<mapsto> PyStr (exn_str (PyException ''connection reset'')),
            ''success'' \<mapsto> PyBool False)"
    by blast
  then have second: "returned (execute crashing_env ready_agent (PyStr ''list experiments'') False)
       = (returned (ask crashing_env ready_agent (PyStr ''list experiments'') False))
           (''error'' \<mapsto> PyStr ''connection reset'', ''success'' \<mapsto> PyBool False)"
    by (simp only: exn_str_def py_exn.case)
  from good failed first crashed second show ?thesis by blast
qed

end
